theory Spec2Isabelle
  imports Main "HOL-Library.Word"
begin

unbundle bit_operations_syntax

section \<open>Go values: byte strings, runes, panics\<close>

text \<open>
  A Go \<^verbatim>\<open>string\<close> is a sequence of bytes, so it is a \<^typ>\<open>string\<close> here (one
  \<^typ>\<open>char\<close> per byte); indices and lengths count bytes, as \<^verbatim>\<open>len\<close> and slicing do.
  A \<^verbatim>\<open>rune\<close> is a code point.  A run-time panic is a value of \<open>panic\<close>.
\<close>

type_synonym rune = nat

datatype panic =
    SliceBounds nat nat nat   \<comment> \<open>\<^verbatim>\<open>s[lo:hi]\<close> with \<open>lo > hi\<close> or \<open>hi > len\<close>: low, high, length\<close>
  | IndexRange nat nat        \<comment> \<open>\<^verbatim>\<open>s[i]\<close> with \<open>i \<ge> len\<close>: index, length\<close>
  | RegexpPanic               \<comment> \<open>\<^verbatim>\<open>regexp.MustCompile\<close> on a pattern that does not compile\<close>
  | ExecPanic                 \<comment> \<open>\<^verbatim>\<open>panic(err)\<close> after a failed command\<close>

abbreviation DQUOTE :: char where "DQUOTE \<equiv> CHR 0x22"
abbreviation SQUOTE :: char where "SQUOTE \<equiv> CHR 0x27"
abbreviation BQUOTE :: char where "BQUOTE \<equiv> CHR 0x60"
abbreviation BSLASH :: char where "BSLASH \<equiv> CHR 0x5C"
abbreviation TAB :: char where "TAB \<equiv> CHR 0x09"
abbreviation NL :: char where "NL \<equiv> CHR 0x0A"

definition RuneError :: rune where
  "RuneError = 65533"

text \<open>\<^verbatim>\<open>s[lo:hi]\<close>, \<^verbatim>\<open>s[lo:]\<close> and \<^verbatim>\<open>s[:hi]\<close> with Go's bounds check.\<close>

definition slice :: "string \<Rightarrow> nat \<Rightarrow> nat \<Rightarrow> panic + string" where
  "slice s lo hi =
     (if hi \<le> length s \<and> lo \<le> hi then Inr (take (hi - lo) (drop lo s))
      else Inl (SliceBounds lo hi (length s)))"

definition slice_from :: "string \<Rightarrow> nat \<Rightarrow> panic + string" where
  "slice_from s lo = slice s lo (length s)"

definition slice_to :: "string \<Rightarrow> nat \<Rightarrow> panic + string" where
  "slice_to s hi = slice s 0 hi"

text \<open>Index of the first element that satisfies a test; \<open>None\<close> is Go's \<open>-1\<close>.\<close>

fun index_where :: "('a \<Rightarrow> bool) \<Rightarrow> 'a list \<Rightarrow> nat option" where
  "index_where P [] = None"
| "index_where P (x # xs) =
     (if P x then Some 0 else map_option Suc (index_where P xs))"

text \<open>\<^verbatim>\<open>strings.IndexAny\<close> for a set of ASCII characters, \<^verbatim>\<open>strings.IndexByte\<close>
  (\<^verbatim>\<open>strings.IndexRune\<close> and \<^verbatim>\<open>strings.Index\<close> of one ASCII character are the same).\<close>

definition IndexAny :: "string \<Rightarrow> string \<Rightarrow> nat option" where
  "IndexAny s chars = index_where (\<lambda>c. c \<in> set chars) s"

definition IndexByte :: "string \<Rightarrow> char \<Rightarrow> nat option" where
  "IndexByte s c = index_where (\<lambda>x. x = c) s"

definition HasPrefix :: "string \<Rightarrow> string \<Rightarrow> bool" where
  "HasPrefix s pre = (length pre \<le> length s \<and> take (length pre) s = pre)"

definition HasSuffix :: "string \<Rightarrow> string \<Rightarrow> bool" where
  "HasSuffix s post = (length post \<le> length s \<and> drop (length s - length post) s = post)"

text \<open>\<^verbatim>\<open>strings.Cut(s, sep)\<close> for a one-character separator.\<close>

definition Cut :: "string \<Rightarrow> char \<Rightarrow> string \<times> string \<times> bool" where
  "Cut s sep =
     (case IndexByte s sep of
        None \<Rightarrow> (s, [], False)
      | Some i \<Rightarrow> (take i s, drop (Suc i) s, True))"

text \<open>\<^verbatim>\<open>strings.Join\<close>.\<close>

fun Join :: "string list \<Rightarrow> string \<Rightarrow> string" where
  "Join [] sep = []"
| "Join [x] sep = x"
| "Join (x # y # ys) sep = x @ sep @ Join (y # ys) sep"

text \<open>\<^verbatim>\<open>utf8.DecodeRuneInString\<close>: the first code point of a byte string and its width in
  bytes; \<open>(RuneError, 0)\<close> on the empty string and \<open>(RuneError, 1)\<close> on an ill-formed
  sequence.\<close>

definition continuation :: "nat \<Rightarrow> bool" where
  "continuation b = (128 \<le> b \<and> b \<le> 191)"

fun DecodeRuneInString :: "string \<Rightarrow> rune \<times> nat" where
  "DecodeRuneInString [] = (RuneError, 0)"
| "DecodeRuneInString (c # cs) =
     (let s0 = (of_char c :: nat) in
      if s0 < 128 then (s0, 1)
      else if s0 < 194 \<or> 244 < s0 then (RuneError, 1)
      else
        let sz = (if s0 < 224 then 2 else if s0 < 240 then 3 else (4::nat));
            lo = (if s0 = 224 then 160 else if s0 = 240 then 144 else (128::nat));
            hi = (if s0 = 237 then 159 else if s0 = 244 then 143 else (191::nat));
            bs = map of_char cs
        in
          if length cs + 1 < sz then (RuneError, 1)
          else if bs ! 0 < lo \<or> hi < bs ! 0 then (RuneError, 1)
          else if sz = 2 then ((s0 mod 32) * 64 + bs ! 0 mod 64, 2)
          else if \<not> continuation (bs ! 1) then (RuneError, 1)
          else if sz = 3 then ((s0 mod 16) * 4096 + (bs ! 0 mod 64) * 64 + bs ! 1 mod 64, 3)
          else if \<not> continuation (bs ! 2) then (RuneError, 1)
          else ((s0 mod 8) * 262144 + (bs ! 0 mod 64) * 4096 + (bs ! 1 mod 64) * 64
                 + bs ! 2 mod 64, 4))"

text \<open>\<^verbatim>\<open>string(r)\<close> for a rune: its UTF-8 encoding, that of U+FFFD for a surrogate or a
  value past U+10FFFF.\<close>

definition EncodeRune :: "rune \<Rightarrow> string" where
  "EncodeRune r =
     (if r < 128 then [char_of r]
      else if r < 2048 then [char_of (192 + r div 64), char_of (128 + r mod 64)]
      else if (55296 \<le> r \<and> r \<le> 57343) \<or> 1114111 < r then [CHR 0xEF, CHR 0xBF, CHR 0xBD]
      else if r < 65536 then
        [char_of (224 + r div 4096), char_of (128 + (r div 64) mod 64), char_of (128 + r mod 64)]
      else
        [char_of (240 + r div 262144), char_of (128 + (r div 4096) mod 64),
         char_of (128 + (r div 64) mod 64), char_of (128 + r mod 64)])"

text \<open>\<^verbatim>\<open>for i, c := range s\<close>: the code points of a string with their widths, decoded
  from the left.  The counter skips the bytes of the code point just decoded.\<close>

fun runes_from :: "nat \<Rightarrow> string \<Rightarrow> (rune \<times> nat) list" where
  "runes_from k [] = []"
| "runes_from 0 (c # cs) =
     (let (r, w) = DecodeRuneInString (c # cs) in (r, w) # runes_from (w - 1) cs)"
| "runes_from (Suc k) (c # cs) = runes_from k cs"

definition runes :: "string \<Rightarrow> (rune \<times> nat) list" where
  "runes s = runes_from 0 s"

text \<open>\<^verbatim>\<open>unicode.IsSpace\<close>, in full.\<close>

definition IsSpace :: "rune \<Rightarrow> bool" where
  "IsSpace r =
     (r \<in> {9, 10, 11, 12, 13, 32, 133, 160, 5760, 8232, 8233, 8239, 8287, 12288}
      \<or> (8192 \<le> r \<and> r \<le> 8202))"

text \<open>
  What the program takes from its host.  For the expander: the process environment
  (\<^verbatim>\<open>os.LookupEnv\<close>), the words lexed from the output of the command of a backtick span
  (\<open>None\<close> when the command fails), Go's regular expression engine on the pattern
  \<^verbatim>\<open>^\Qa\E(.*)\Qb\E$\<close> built at run time (\<open>None\<close> when it does not compile, else the first
  submatch of a value, if it matches), and the two configuration globals.  For the graph:
  \<^verbatim>\<open>regexp.Compile\<close> (the error text, or \<^verbatim>\<open>FindStringSubmatch\<close> of the compiled
  pattern), the output of a backtick command (\<open>None\<close> when \<^verbatim>\<open>cmd.Run\<close> fails), and the
  run of a recipe on the files (the error text of \<^verbatim>\<open>cmd.Run\<close>, if any, and the files
  afterwards).  For both: the Unicode tables \<^verbatim>\<open>unicode.Letter\<close> and \<^verbatim>\<open>unicode.Digit\<close>
  above Latin-1 (below it, the classification is written out).  A file system is a map
  from a name to the modification time of the file of that name.
\<close>

record host =
  LookupEnv :: "string \<Rightarrow> string option"
  Letter :: "rune \<Rightarrow> bool"
  Digit :: "rune \<Rightarrow> bool"
  valuePattern :: "string \<Rightarrow> string \<Rightarrow> (string \<Rightarrow> string option) option"
  backquote :: "string \<Rightarrow> string list \<Rightarrow> (string \<Rightarrow> string list option) \<Rightarrow> string
                  \<Rightarrow> string list option"
  defaultShell :: string
  dontDropArgs :: bool
  regexpCompile :: "string \<Rightarrow> string + (string \<Rightarrow> string list option)"
  shellOutput :: "string \<Rightarrow> (string \<Rightarrow> string option) \<Rightarrow> string option"
  shellRun :: "string \<Rightarrow> (string \<Rightarrow> string option) \<Rightarrow> (string \<Rightarrow> int option)
                 \<Rightarrow> string option \<times> (string \<Rightarrow> int option)"

definition IsLetter :: "host \<Rightarrow> rune \<Rightarrow> bool" where
  "IsLetter h r =
     (if r \<le> 255 then
        (65 \<le> r \<and> r \<le> 90) \<or> (97 \<le> r \<and> r \<le> 122) \<or> r = 170 \<or> r = 181 \<or> r = 186
        \<or> (192 \<le> r \<and> r \<le> 214) \<or> (216 \<le> r \<and> r \<le> 246) \<or> 248 \<le> r
      else Letter h r)"

definition IsDigit :: "host \<Rightarrow> rune \<Rightarrow> bool" where
  "IsDigit h r = (if r \<le> 255 then 48 \<le> r \<and> r \<le> 57 else Digit h r)"

text \<open>\<^verbatim>\<open>strings.Fields\<close> and \<^verbatim>\<open>strings.TrimSpace\<close>: fields are the maximal runs of code
  points that are not white space.\<close>

fun fields_of :: "(rune \<times> string) list \<Rightarrow> string \<Rightarrow> string list" where
  "fields_of [] cur = (if cur = [] then [] else [cur])"
| "fields_of ((r, bs) # rest) cur =
     (if IsSpace r then (if cur = [] then fields_of rest [] else cur # fields_of rest [])
      else fields_of rest (cur @ bs))"

fun rune_bytes :: "(rune \<times> nat) list \<Rightarrow> string \<Rightarrow> (rune \<times> string) list" where
  "rune_bytes [] s = []"
| "rune_bytes ((r, w) # rest) s = (r, take w s) # rune_bytes rest (drop w s)"

definition Fields :: "string \<Rightarrow> string list" where
  "Fields s = fields_of (rune_bytes (runes s) s) []"

definition TrimSpace :: "string \<Rightarrow> string" where
  "TrimSpace s =
     (let rs = rune_bytes (runes s) s;
          keep = rev (dropWhile (\<lambda>(r, bs). IsSpace r) (rev (dropWhile (\<lambda>(r, bs). IsSpace r) rs)))
      in concat (map snd keep))"


section \<open>The expander (string substitution and expansion)\<close>

type_synonym vars = "string \<Rightarrow> string list option"

lemma index_where_less:
  "index_where P xs = Some j \<Longrightarrow> j < length xs"
  by (induction xs arbitrary: j) (auto split: if_splits)

lemma DecodeRuneInString_width:
  "s \<noteq> [] \<Longrightarrow> DecodeRuneInString s = (c, w) \<Longrightarrow> 1 \<le> w"
  by (cases s) (auto simp: Let_def split: if_splits)

text \<open>\<^verbatim>\<open>expandEscape\<close>: expand following a backslash.\<close>

definition expandEscape :: "string \<Rightarrow> string \<times> nat" where
  "expandEscape input =
     (let (c, w) = DecodeRuneInString input in
      if c = 9 \<or> c = 32 then (EncodeRune c, w)
      else if c = 10 then ([], w)
      else (BSLASH # EncodeRune c, w))"

text \<open>\<^verbatim>\<open>expandSingleQuoted\<close>: a single quoted string starting after the quote.\<close>

definition expandSingleQuoted :: "string \<Rightarrow> string \<times> nat" where
  "expandSingleQuoted input =
     (case IndexByte input SQUOTE of
        None \<Rightarrow> (input, length input)
      | Some j \<Rightarrow> (take j input, j + 1))"

text \<open>The loop of \<^verbatim>\<open>expandDoubleQuoted\<close> that finds the first double quote that no
  backslash escapes: \<open>Some (j, i)\<close> when it stands at \<open>j\<close> and the text after it starts at
  \<open>i\<close>, \<open>None\<close> when the loop breaks (no closing quote).\<close>

function dq_scan :: "string \<Rightarrow> nat \<Rightarrow> (nat \<times> nat) option" where
  "dq_scan input i =
     (case IndexAny (drop i input) [DQUOTE, BSLASH] of
        None \<Rightarrow> None
      | Some j0 \<Rightarrow>
          (let j = j0 + i;
               cw = DecodeRuneInString (drop j input);
               i' = j + snd cw
           in if fst cw = 34 then Some (j, i')
              else if fst cw = 92 then
                (if i' < length input
                 then dq_scan input (i' + snd (DecodeRuneInString (drop i' input)))
                 else None)
              else dq_scan input i'))"
  by pat_completeness auto
termination
proof (relation "measure (\<lambda>(input, i). length input - i)")
  show "wf (measure (\<lambda>(input, i). length input - i))" by simp
next
  fix input :: string and i j0 :: nat and x xa xb
  assume a: "IndexAny (drop i input) [DQUOTE, BSLASH] = Some j0"
    and x: "x = j0 + i" and xa: "xa = DecodeRuneInString (drop x input)"
    and xb: "xb = x + snd xa"
  from a have lt: "j0 < length (drop i input)"
    unfolding IndexAny_def by (rule index_where_less)
  then have ne: "drop x input \<noteq> []" using x by simp
  have "1 \<le> snd xa"
    using DecodeRuneInString_width [OF ne, of "fst xa" "snd xa"] xa by simp
  then show "((input, xb + snd (DecodeRuneInString (drop xb input))), input, i)
      \<in> measure (\<lambda>(input, i). length input - i)"
    using lt x xb by simp
next
  fix input :: string and i j0 :: nat and x xa xb
  assume a: "IndexAny (drop i input) [DQUOTE, BSLASH] = Some j0"
    and x: "x = j0 + i" and xa: "xa = DecodeRuneInString (drop x input)"
    and xb: "xb = x + snd xa"
  from a have lt: "j0 < length (drop i input)"
    unfolding IndexAny_def by (rule index_where_less)
  then have ne: "drop x input \<noteq> []" using x by simp
  have "1 \<le> snd xa"
    using DecodeRuneInString_width [OF ne, of "fst xa" "snd xa"] xa by simp
  then show "((input, xb), input, i) \<in> measure (\<lambda>(input, i). length input - i)"
    using lt x xb by simp
qed

text \<open>\<^verbatim>\<open>isValidVarName\<close>: both branches of the source test the same three classes.\<close>

definition isValidVarName :: "host \<Rightarrow> string \<Rightarrow> bool" where
  "isValidVarName h v = list_all (\<lambda>(c, w). IsLetter h c \<or> IsDigit h c \<or> c = 95) (runes v)"

text \<open>The loop of \<^verbatim>\<open>expandSigil\<close> that matches a bare variable name from offset \<open>0\<close>
  (the source's \<open>i\<close>): the offset \<open>j\<close> where it stops.\<close>

function scanIdent :: "host \<Rightarrow> string \<Rightarrow> nat \<Rightarrow> nat" where
  "scanIdent h input j =
     (if j < length input then
        (let cw = DecodeRuneInString (drop j input) in
         if \<not> (IsLetter h (fst cw) \<or> fst cw = 95 \<or> (j > 0 \<and> IsDigit h (fst cw))) then j
         else scanIdent h input (j + snd cw))
      else j)"
  by pat_completeness auto
termination
proof (relation "measure (\<lambda>(h, input, j). length input - j)")
  show "wf (measure (\<lambda>(h, input, j). length input - j))" by simp
next
  fix h :: host and input :: string and j :: nat and x
  assume lt: "j < length input" and x: "x = DecodeRuneInString (drop j input)"
  then have ne: "drop j input \<noteq> []" by simp
  have "1 \<le> snd x"
    using DecodeRuneInString_width [OF ne, of "fst x" "snd x"] x by simp
  then show "((h, input, j + snd x), h, input, j) \<in> measure (\<lambda>(h, input, j). length input - j)"
    using lt by simp
qed

text \<open>
  The package-level pattern \<^verbatim>\<open>expandSigil_namelist_pattern\<close>,
  \<^verbatim>\<open>^\s*([^:]+)\s*:\s*([^%]*)%([^=]*)\s*=\s*([^%]*)%([^%]*)\s*\<close>, under Go's leftmost-first
  matching: the five submatches, \<open>None\<close> when \<^verbatim>\<open>FindStringSubmatch\<close> returns nil.
  Every class of the pattern stops at one fixed character, so the match is found by
  cutting at the first colon, the first percent sign after it, the first equals sign
  after that and the next percent sign; the greedy \<^verbatim>\<open>\s*\<close> in front gives back one
  character only when the first group would be empty.
\<close>

definition re_space :: "char \<Rightarrow> bool" where
  "re_space c = (c \<in> {TAB, NL, CHR 0x0C, CHR 0x0D, CHR '' ''})"

definition namelist_match :: "string \<Rightarrow> (string \<times> string \<times> string \<times> string \<times> string) option" where
  "namelist_match s =
     (let k = length (takeWhile re_space s) in
      case IndexByte s (CHR '':'') of
        None \<Rightarrow> None
      | Some p \<Rightarrow>
          if p = 0 then None
          else
            let m1 = (if k < p then take (p - k) (drop k s) else [s ! (p - 1)]);
                r1 = dropWhile re_space (drop (Suc p) s)
            in case IndexByte r1 (CHR ''%'') of
                 None \<Rightarrow> None
               | Some q \<Rightarrow>
                   let a = take q r1; r2 = drop (Suc q) r1
                   in case IndexByte r2 (CHR ''='') of
                        None \<Rightarrow> None
                      | Some e \<Rightarrow>
                          let b = take e r2; r3 = dropWhile re_space (drop (Suc e) r2)
                          in case IndexByte r3 (CHR ''%'') of
                               None \<Rightarrow> None
                             | Some f \<Rightarrow>
                                 let c = take f r3;
                                     d = takeWhile (\<lambda>x. x \<noteq> CHR ''%'') (drop (Suc f) r3)
                                 in Some (m1, a, b, c, d))"

text \<open>The test \<^verbatim>\<open>mat != nil && isValidVarName(mat[1])\<close> of \<^verbatim>\<open>expandSigil\<close>.\<close>

definition namelist :: "host \<Rightarrow> string \<Rightarrow> (string \<times> string \<times> string \<times> string \<times> string) option" where
  "namelist h varname =
     (case namelist_match varname of
        None \<Rightarrow> None
      | Some m \<Rightarrow> if isValidVarName h (fst m) then Some m else None)"

text \<open>\<^verbatim>\<open>expandShell\<close>: the shell command split into the program and its arguments.
  \<^verbatim>\<open>fields[0]\<close> panics on a command with no field.\<close>

definition expandShell :: "host \<Rightarrow> string \<Rightarrow> string list \<Rightarrow> panic + string \<times> string list" where
  "expandShell h shcmd args =
     (case Fields shcmd of
        [] \<Rightarrow> Inl (IndexRange 0 0)
      | shell # shellargs \<Rightarrow>
          Inr (shell,
               if shellargs \<noteq> [] \<and> args \<noteq> [] then shellargs @ args
               else if shellargs \<noteq> [] \<and> dontDropArgs h then shellargs @ args
               else args))"

text \<open>\<^verbatim>\<open>expandBackQuoted\<close>: the span up to the next backtick is the standard input of the
  shell; the words lexed from its output are what \<open>backquote\<close> of the host returns,
  \<open>None\<close> when the pipe, the start or the wait fails (the source then returns
  \<^verbatim>\<open>nil, 0\<close>).\<close>

definition expandBackQuoted :: "host \<Rightarrow> string \<Rightarrow> vars \<Rightarrow> panic + string list \<times> nat" where
  "expandBackQuoted h input vars =
     (case IndexByte input BQUOTE of
        None \<Rightarrow> Inr ([input], length input)
      | Some j \<Rightarrow>
          (case (case vars ''shell'' of
                   Some (sh # rest) \<Rightarrow> expandShell h sh []
                 | _ \<Rightarrow> expandShell h (defaultShell h) []) of
             Inl p \<Rightarrow> Inl p
           | Inr (shell, shellargs) \<Rightarrow>
               (case backquote h shell shellargs vars (take j input) of
                  None \<Rightarrow> Inr ([], 0)
                | Some parts \<Rightarrow> Inr (parts, j + 1))))"

text \<open>The tail of \<^verbatim>\<open>expandSigil\<close> shared by \<^verbatim>\<open>${name}\<close> and \<^verbatim>\<open>$name\<close>: the variable
  environment first, then the process environment, else the sigil itself.\<close>

definition sigil_lookup :: "host \<Rightarrow> vars \<Rightarrow> string \<Rightarrow> string \<Rightarrow> nat \<Rightarrow> panic + string list \<times> nat" where
  "sigil_lookup h vars varname input offset =
     (if isValidVarName h varname then
        (case vars varname of
           Some varvals \<Rightarrow> Inr (varvals, offset)
         | None \<Rightarrow>
             (case LookupEnv h varname of
                Some varval \<Rightarrow> Inr ([varval], offset)
              | None \<Rightarrow>
                  (case slice_to input offset of
                     Inl p \<Rightarrow> Inl p
                   | Inr pre \<Rightarrow> Inr ([CHR ''$'' # pre], offset))))
      else
        (case LookupEnv h varname of
           Some varval \<Rightarrow> Inr ([varval], offset)
         | None \<Rightarrow> Inr ([CHR ''$'' # input], length input)))"

text \<open>How \<^verbatim>\<open>expand\<close> joins the words of a list-valued expansion to the word under
  construction: \<open>(parts, expanded)\<close> afterwards.\<close>

definition splice_sigil :: "string list \<Rightarrow> string \<Rightarrow> string list \<Rightarrow> string list \<times> string" where
  "splice_sigil parts expanded outparts =
     (if outparts \<noteq> [] then
        (let firstpart = expanded @ hd outparts in
         if length outparts > 1 then
           (parts @ [firstpart] @ (if length outparts > 2 then butlast (tl outparts) else []),
            last outparts)
         else (parts, firstpart))
      else (parts, expanded))"

definition splice_backquote :: "string list \<Rightarrow> string \<Rightarrow> string list \<Rightarrow> string list \<times> string" where
  "splice_backquote parts expanded outparts =
     (if outparts \<noteq> [] then
        (let ops = (expanded @ hd outparts) # tl outparts in (parts @ butlast ops, last ops))
      else (parts, expanded))"

text \<open>
  \<^verbatim>\<open>expand\<close>, \<^verbatim>\<open>expandDoubleQuoted\<close> and \<^verbatim>\<open>expandSigil\<close> call one another, and the
  namelist form \<^verbatim>\<open>${name:a%b=c%d}\<close> expands text taken from the values of a variable, so
  the recursion is not bounded by the input.  The first argument is fuel: every call and
  every turn of the loop of \<^verbatim>\<open>expand\<close> takes one unit, and \<open>None\<close> is "no result within
  the fuel".  \<open>Some (Inl p)\<close> is a panic, \<open>Some (Inr r)\<close> a return; \<open>rbind\<close> runs the rest
  of a function body after a call that returned.
\<close>

type_synonym 'a result = "(panic + 'a) option"

fun rbind :: "'a result \<Rightarrow> ('a \<Rightarrow> 'b result) \<Rightarrow> 'b result" where
  "rbind None f = None"
| "rbind (Some (Inl p)) f = Some (Inl p)"
| "rbind (Some (Inr x)) f = f x"

definition ret :: "'a \<Rightarrow> 'a result" where
  "ret x = Some (Inr x)"

function (sequential) expand_loop :: "nat \<Rightarrow> host \<Rightarrow> string \<Rightarrow> vars \<Rightarrow> bool \<Rightarrow> string list \<Rightarrow> string
                      \<Rightarrow> string list result"
  and expandDoubleQuoted :: "nat \<Rightarrow> host \<Rightarrow> string \<Rightarrow> vars \<Rightarrow> bool \<Rightarrow> (string \<times> nat) result"
  and expandSigil :: "nat \<Rightarrow> host \<Rightarrow> string \<Rightarrow> vars \<Rightarrow> (string list \<times> nat) result"
  and expand_values :: "nat \<Rightarrow> host \<Rightarrow> vars \<Rightarrow> (string \<Rightarrow> string option) \<Rightarrow> string \<Rightarrow> string
                      \<Rightarrow> string list \<Rightarrow> string list result"
where
  "expand_loop 0 h input vars eb parts expanded = None"
| "expand_loop (Suc n) h input vars eb parts expanded =
     (if input = [] then ret (if expanded \<noteq> [] then parts @ [expanded] else parts)
      else
        case IndexAny input [DQUOTE, SQUOTE, BQUOTE, CHR ''$'', BSLASH] of
          None \<Rightarrow> ret (parts @ [expanded @ input])
        | Some j \<Rightarrow>
            rbind
              (if input ! j = BSLASH then
                 ret (parts,
                      expanded @ take j input @ fst (expandEscape (drop (Suc j) input)),
                      snd (expandEscape (drop (Suc j) input)))
               else if input ! j = DQUOTE then
                 rbind (expandDoubleQuoted n h (drop (Suc j) input) vars eb)
                   (\<lambda>r. ret (parts, expanded @ take j input @ fst r, snd r))
               else if input ! j = SQUOTE then
                 ret (parts,
                      expanded @ take j input @ fst (expandSingleQuoted (drop (Suc j) input)),
                      snd (expandSingleQuoted (drop (Suc j) input)))
               else if input ! j = BQUOTE then
                 (if eb then
                    rbind (Some (expandBackQuoted h (drop (Suc j) input) vars))
                      (\<lambda>r. ret (fst (splice_backquote parts (expanded @ take j input) (fst r)),
                                 snd (splice_backquote parts (expanded @ take j input) (fst r)),
                                 snd r))
                  else ret (parts, expanded @ take j input @ drop (Suc j) input,
                            length (drop (Suc j) input)))
               else if input ! j = CHR ''$'' then
                 rbind (expandSigil n h (drop (Suc j) input) vars)
                   (\<lambda>r. ret (fst (splice_sigil parts (expanded @ take j input) (fst r)),
                              snd (splice_sigil parts (expanded @ take j input) (fst r)),
                              snd r))
               else ret (parts, expanded @ take j input, 0))
              (\<lambda>(parts2, expanded2, off).
                 rbind (Some (slice_from (drop (Suc j) input) off))
                   (\<lambda>rest. expand_loop n h rest vars eb parts2 expanded2)))"
| "expandDoubleQuoted 0 h input vars eb = None"
| "expandDoubleQuoted (Suc n) h input vars eb =
     (case dq_scan input 0 of
        None \<Rightarrow> ret (input, length input)
      | Some (j, i) \<Rightarrow>
          rbind (expand_loop n h (take j input) vars eb [] []) (\<lambda>ws. ret (Join ws '' '', i)))"
| "expandSigil 0 h input vars = None"
| "expandSigil (Suc n) h input vars =
     (if fst (DecodeRuneInString input) = 36 then ret ([''$''], 2)
      else if fst (DecodeRuneInString input) = 123 then
        (case IndexByte (drop (snd (DecodeRuneInString input)) input) (CHR ''}'') of
           None \<Rightarrow> ret ([CHR ''$'' # input], length input)
         | Some j \<Rightarrow>
             (case namelist h (take j (drop (snd (DecodeRuneInString input)) input)) of
                Some (name, a, b, c1, d) \<Rightarrow>
                  (case vars name of
                     None \<Rightarrow> ret ([], snd (DecodeRuneInString input) + j + 1)
                   | Some vals \<Rightarrow>
                       (case valuePattern h a b of
                          None \<Rightarrow> Some (Inl RegexpPanic)
                        | Some pat \<Rightarrow>
                            rbind (expand_values n h vars pat c1 d vals)
                              (\<lambda>expanded_values.
                                 ret (expanded_values, snd (DecodeRuneInString input) + j + 1))))
              | None \<Rightarrow>
                  Some (sigil_lookup h vars (take j (drop (snd (DecodeRuneInString input)) input))
                          input (snd (DecodeRuneInString input) + j + 1))))
      else if scanIdent h input 0 > 0 then
        Some (sigil_lookup h vars (take (scanIdent h input 0) input) input (scanIdent h input 0))
      else rbind (Some (slice_to input 1)) (\<lambda>pre. ret ([CHR ''$'' # pre], 1)))"
| "expand_values 0 h vars pat c1 d vals = None"
| "expand_values (Suc n) h vars pat c1 d [] = ret []"
| "expand_values (Suc n) h vars pat c1 d (v # vs) =
     rbind (case pat v of
              None \<Rightarrow> ret [v]
            | Some m \<Rightarrow> expand_loop n h (c1 @ m @ d) vars False [] [])
       (\<lambda>ws. rbind (expand_values n h vars pat c1 d vs) (\<lambda>rest. ret (ws @ rest)))"
  by pat_completeness auto
termination
  by (relation "measure (\<lambda>x. case x of
         Inl (Inl a) \<Rightarrow> fst a | Inl (Inr a) \<Rightarrow> fst a
       | Inr (Inl a) \<Rightarrow> fst a | Inr (Inr a) \<Rightarrow> fst a)") auto

text \<open>\<^verbatim>\<open>expand\<close>: expand a word; this includes substituting variables and handling
  quotes.\<close>

definition expand :: "nat \<Rightarrow> host \<Rightarrow> string \<Rightarrow> vars \<Rightarrow> bool \<Rightarrow> string list result" where
  "expand n h input vars expandBackticks = expand_loop n h input vars expandBackticks [] []"

text \<open>
  \<^verbatim>\<open>expandSuffixes\<close>: expand all unescaped percent signs.  The loop has no bound in the
  source (one branch leaves \<open>i\<close> as it is), so it takes fuel as well.  \<open>j\<close> is the index
  \<^verbatim>\<open>strings.IndexAny\<close> returns for \<^verbatim>\<open>input[i:]\<close>, and the source uses it as it is in
  \<^verbatim>\<open>input[j:]\<close> and \<^verbatim>\<open>input[i:j]\<close>.
\<close>

fun expandSuffixes_loop :: "nat \<Rightarrow> string \<Rightarrow> string \<Rightarrow> nat \<Rightarrow> string \<Rightarrow> (panic + string) option" where
  "expandSuffixes_loop 0 input stem i expanded = None"
| "expandSuffixes_loop (Suc n) input stem i expanded =
     (if \<not> i < length input then Some (Inr expanded)
      else
        case IndexAny (drop i input) [BSLASH, CHR ''%''] of
          None \<Rightarrow> Some (Inr (expanded @ drop i input))
        | Some j \<Rightarrow>
            (case slice_from input j of
               Inl p \<Rightarrow> Some (Inl p)
             | Inr sj \<Rightarrow>
                 (case slice input i j of
                    Inl p \<Rightarrow> Some (Inl p)
                  | Inr seg \<Rightarrow>
                      (let c = fst (DecodeRuneInString sj); w = snd (DecodeRuneInString sj) in
                       if c = 37 then expandSuffixes_loop n input stem (j + w) (expanded @ seg @ stem)
                       else
                         (case slice_from input (j + w) of
                            Inl p \<Rightarrow> Some (Inl p)
                          | Inr sj2 \<Rightarrow>
                              (let c2 = fst (DecodeRuneInString sj2);
                                   w2 = snd (DecodeRuneInString sj2)
                               in if c2 = 37
                                  then expandSuffixes_loop n input stem (j + w + w2)
                                         (expanded @ seg @ ''%'')
                                  else expandSuffixes_loop n input stem i (expanded @ seg)))))))"

definition expandSuffixes :: "nat \<Rightarrow> string \<Rightarrow> string \<Rightarrow> (panic + string) option" where
  "expandSuffixes n input stem = expandSuffixes_loop n input stem 0 []"


section \<open>Rule sets and the scheduler of a node\<close>

subsection \<open>Rules with attributes\<close>

record attribSet =
  delFailed :: bool        \<comment> \<open>delete targets when the recipe fails\<close>
  nonstop :: bool          \<comment> \<open>don't stop if the recipe fails\<close>
  forcedTimestamp :: bool  \<comment> \<open>update timestamp whether the recipe does or not\<close>
  nonvirtual :: bool       \<comment> \<open>a meta-rule that will only match files\<close>
  quiet :: bool            \<comment> \<open>don't print the recipe\<close>
  regex :: bool            \<comment> \<open>regular expression meta-rule\<close>
  update :: bool           \<comment> \<open>treat the targets as if they were updated\<close>
  virtual :: bool          \<comment> \<open>rule is virtual (does not match files)\<close>
  exclusive :: bool        \<comment> \<open>don't execute concurrently with any other rule\<close>

text \<open>A target pattern; \<open>rpat\<close> is \<^verbatim>\<open>FindStringSubmatch\<close> of the compiled pattern, \<open>None\<close>
  for the nil pointer of a simple string pattern.\<close>

record pattern =
  issuffix :: bool
  spat :: string
  rpat :: "(string \<Rightarrow> string list option) option"

record rule =
  targets :: "pattern list"
  attributes :: attribSet
  prereqs :: "string list"
  shell :: "string list"
  recipe :: string
  command :: "string list"
  ismeta :: bool
  rule_file :: string   \<comment> \<open>the field \<^verbatim>\<open>file\<close>\<close>
  line :: nat

text \<open>A set of rules; \<open>targetrules\<close> maps a target to the indexes of its rules (a key that
  is absent reads as the empty array).\<close>

record ruleSet =
  vars :: "string \<Rightarrow> string list option"
  rules :: "rule list"
  targetrules :: "string \<Rightarrow> nat list"

text \<open>
  \<^verbatim>\<open>rule.parseAttribs\<close>: read attributes from an array of strings, updating the rule.
  \<open>Inl c\<close> is the \<^verbatim>\<open>attribError\<close> that found the rune \<open>c\<close>.  The inner loop runs over
  the code points of one string with their byte offsets; its flag says that \<open>P\<close> or \<open>S\<close>
  returned.
\<close>

fun parseAttribs_input :: "rule \<Rightarrow> string \<Rightarrow> string list \<Rightarrow> nat \<Rightarrow> (rune \<times> nat) list
                             \<Rightarrow> rune + rule \<times> bool" where
  "parseAttribs_input r input later pos [] = Inr (r, False)"
| "parseAttribs_input r input later pos ((c, w) # cs) =
     (if c = 68 then
        parseAttribs_input (r\<lparr>attributes := (attributes r)\<lparr>delFailed := True\<rparr>\<rparr>) input later (pos + w) cs
      else if c = 69 then
        parseAttribs_input (r\<lparr>attributes := (attributes r)\<lparr>nonstop := True\<rparr>\<rparr>) input later (pos + w) cs
      else if c = 78 then
        parseAttribs_input (r\<lparr>attributes := (attributes r)\<lparr>forcedTimestamp := True\<rparr>\<rparr>) input later (pos + w) cs
      else if c = 110 then
        parseAttribs_input (r\<lparr>attributes := (attributes r)\<lparr>nonvirtual := True\<rparr>\<rparr>) input later (pos + w) cs
      else if c = 81 then
        parseAttribs_input (r\<lparr>attributes := (attributes r)\<lparr>quiet := True\<rparr>\<rparr>) input later (pos + w) cs
      else if c = 82 then
        parseAttribs_input (r\<lparr>attributes := (attributes r)\<lparr>regex := True\<rparr>\<rparr>) input later (pos + w) cs
      else if c = 85 then
        parseAttribs_input (r\<lparr>attributes := (attributes r)\<lparr>update := True\<rparr>\<rparr>) input later (pos + w) cs
      else if c = 86 then
        parseAttribs_input (r\<lparr>attributes := (attributes r)\<lparr>virtual := True\<rparr>\<rparr>) input later (pos + w) cs
      else if c = 88 then
        parseAttribs_input (r\<lparr>attributes := (attributes r)\<lparr>exclusive := True\<rparr>\<rparr>) input later (pos + w) cs
      else if c = 80 then
        Inr (r\<lparr>command := command r
                   @ (if pos + w < length input then [drop (pos + w) input] else []) @ later\<rparr>, True)
      else if c = 83 then
        Inr (r\<lparr>shell := shell r
                   @ (if pos + w < length input then [drop (pos + w) input] else []) @ later\<rparr>, True)
      else Inl c)"

fun parseAttribs :: "rule \<Rightarrow> string list \<Rightarrow> rune + rule" where
  "parseAttribs r [] = Inr r"
| "parseAttribs r (input # later) =
     (case parseAttribs_input r input later 0 (runes input) of
        Inl c \<Rightarrow> Inl c
      | Inr (r', returned) \<Rightarrow> if returned then Inr r' else parseAttribs r' later)"

text \<open>\<^verbatim>\<open>ruleSet.add\<close>: add a rule to the rule set.\<close>

fun index_targets :: "(string \<Rightarrow> nat list) \<Rightarrow> nat \<Rightarrow> pattern list \<Rightarrow> (string \<Rightarrow> nat list)" where
  "index_targets tr k [] = tr"
| "index_targets tr k (p # ps) =
     index_targets (if rpat p = None then tr(spat p := tr (spat p) @ [k]) else tr) k ps"

definition add :: "ruleSet \<Rightarrow> rule \<Rightarrow> ruleSet" where
  "add rs r =
     rs\<lparr>rules := rules rs @ [r],
        targetrules := index_targets (targetrules rs) (length (rules rs @ [r]) - 1) (targets r)\<rparr>"

subsection \<open>Building a node\<close>

text \<open>
  Modelled from the spec: the types \<^verbatim>\<open>node\<close> and \<^verbatim>\<open>edge\<close> and the method
  \<^verbatim>\<open>updateTimestamp\<close> that \<^verbatim>\<open>mkNode\<close> uses are declared outside the files at hand.  A node
  has a name, an exists flag, a modification time, a status and its edges; an edge binds
  a rule, the stem and the submatches, and a prerequisite node; \<^verbatim>\<open>updateTimestamp\<close> stats
  the target.  Nodes live in a store and an edge names its node by address, as the
  pointers do.  The mutex and the completion subscribers of a node are left out.
\<close>

datatype nodeStatus =
  nodeStatusReady | nodeStatusStarted | nodeStatusNop | nodeStatusDone | nodeStatusFailed

record edge =
  v :: "nat option"
  r :: "rule option"
  stem :: string
  matches :: "string list"

record node =
  name :: string
  exists :: bool
  t :: int
  status :: nodeStatus
  prereqs :: "edge list"
  r :: "rule option"

text \<open>What a run of \<^verbatim>\<open>mkNode\<close> reads and writes: the nodes, the files, and the two
  globals \<^verbatim>\<open>rebuildtargets\<close> and \<^verbatim>\<open>rebuildall\<close>.\<close>

record sched =
  nodes :: "nat \<Rightarrow> node"
  files :: "string \<Rightarrow> int option"
  rebuildtargets :: "string set"
  rebuildall :: bool

definition updateTimestamp :: "sched \<Rightarrow> nat \<Rightarrow> sched" where
  "updateTimestamp w u =
     (case files w (name (nodes w u)) of
        Some mtime \<Rightarrow> w\<lparr>nodes := (nodes w)(u := (nodes w u)\<lparr>exists := True, t := mtime\<rparr>)\<rparr>
      | None \<Rightarrow> w\<lparr>nodes := (nodes w)(u := (nodes w u)\<lparr>exists := False\<rparr>)\<rparr>)"

definition set_status :: "sched \<Rightarrow> nat \<Rightarrow> nodeStatus \<Rightarrow> sched" where
  "set_status w u s = w\<lparr>nodes := (nodes w)(u := (nodes w u)\<lparr>status := s\<rparr>)\<rparr>"

text \<open>The two loops of \<^verbatim>\<open>mkNode\<close> over the edges of the node: the prerequisite nodes,
  and the edge with an associated rule (the last one, as the loop overwrites \<open>e\<close>).\<close>

definition prereq_nodes :: "edge list \<Rightarrow> nat list" where
  "prereq_nodes es = List.map_filter v es"

definition rule_edge :: "edge list \<Rightarrow> edge option" where
  "rule_edge es = (case filter (\<lambda>e. edge.r e \<noteq> None) es of [] \<Rightarrow> None | x # xs \<Rightarrow> Some (last (x # xs)))"

text \<open>The loop that compares the time of the target with each prerequisite: \<open>False\<close>
  when a prerequisite is newer than the target or was built (\<^verbatim>\<open>nodeStatusDone\<close>).\<close>

definition prereqs_older :: "sched \<Rightarrow> nat \<Rightarrow> nat list \<Rightarrow> bool" where
  "prereqs_older w u ps =
     list_all (\<lambda>p. \<not> (t (nodes w u) < t (nodes w p) \<or> status (nodes w p) = nodeStatusDone)) ps"

text \<open>
  \<^verbatim>\<open>mkNode\<close>: build a target in the graph.  The prerequisites are built by other
  goroutines and \<^verbatim>\<open>mkNodePrereqs\<close> blocks until they completed: what they did to the
  nodes and the files by then is the function \<open>built\<close> (of the prerequisite nodes and
  the \<open>required\<close> flag), about which nothing is assumed.  \<open>dorecipe\<close> is the run of the
  recipe: its success and the state afterwards.  The result is \<open>Inl\<close> the message when
  \<^verbatim>\<open>mkError\<close> exits the process, else the state when the deferred function has set the
  final status, and whether this call executed the recipe.  The subprocess slots
  taken around the recipe are left out.
\<close>

definition mkNode :: "(nat list \<Rightarrow> bool \<Rightarrow> sched \<Rightarrow> sched) \<Rightarrow> (nat \<Rightarrow> edge \<Rightarrow> bool \<Rightarrow> sched \<Rightarrow> bool \<times> sched)
                        \<Rightarrow> sched \<Rightarrow> nat \<Rightarrow> bool \<Rightarrow> bool \<Rightarrow> string + sched \<times> bool" where
  "mkNode built dorecipe w0 u dryrun required =
     (if status (nodes w0 u) \<noteq> nodeStatusReady \<and> status (nodes w0 u) \<noteq> nodeStatusNop
      then Inr (w0, False)
      else
        let w1 = set_status w0 u nodeStatusStarted;
            n = nodes w1 u
        in
          if prereqs n = [] then
            (if \<not> (case node.r n of None \<Rightarrow> False | Some ur \<Rightarrow> virtual (attributes ur)) \<and> \<not> exists n
             then Inl (''don't know how to make '' @ name n)
             else Inr (set_status w1 u nodeStatusNop, False))
          else
            case rule_edge (prereqs n) of
              None \<Rightarrow> Inl (''don't know how to make '' @ name n)
            | Some e \<Rightarrow>
                (let er = the (edge.r e);
                     ps = prereq_nodes (prereqs n);
                     prereqsRequired = (required \<and> (virtual (attributes er) \<or> \<not> exists n));
                     w2 = built ps prereqsRequired w1;
                     w3 = (if \<not> virtual (attributes er) then updateTimestamp w2 u else w2);
                     uptodate0 =
                       (if \<not> virtual (attributes er) then
                          (if \<not> exists (nodes w3 u) \<and> required then False
                           else if exists (nodes w3 u) \<or> required then prereqs_older w3 u ps
                           else if required then False
                           else True)
                        else False);
                     uptodate =
                       (if name (nodes w3 u) \<in> rebuildtargets w3 \<or> rebuildall w3 then False
                        else uptodate0);
                     w4 = (if \<not> uptodate then built ps True w3 else w3)
                 in
                   if \<not> uptodate \<and> recipe er \<noteq> [] then
                     (let res = dorecipe u e dryrun w4;
                          w5 = updateTimestamp (snd res) u
                      in Inr (set_status w5 u (if fst res then nodeStatusDone else nodeStatusFailed),
                              True))
                   else Inr (set_status w4 u nodeStatusNop, False)))"

section \<open>Example inputs\<close>

text \<open>A host with an empty process environment, on which every command fails and no
  run-time pattern compiles; its tables above Latin-1 are empty (the examples are
  ASCII).\<close>

definition plain_host :: host where
  "plain_host =
     \<lparr>LookupEnv = (\<lambda>name. None), Letter = (\<lambda>c. False), Digit = (\<lambda>c. False),
      valuePattern = (\<lambda>a b. None), backquote = (\<lambda>sh args env stdin. None),
      defaultShell = ''sh -c'', dontDropArgs = False,
      regexpCompile = (\<lambda>p. Inl ''error parsing regexp''),
      shellOutput = (\<lambda>cmd env. None),
      shellRun = (\<lambda>cmd env fs. (Some ''exit status 1'', fs))\<rparr>"

text \<open>A target \<open>t\<close> newer than its one prerequisite \<open>p\<close>, with a rule that has a
  recipe.\<close>

definition fresh_rule :: rule where
  "fresh_rule =
     \<lparr>rule.targets = [\<lparr>issuffix = False, spat = ''t'', rpat = None\<rparr>],
      attributes = \<lparr>delFailed = False, nonstop = False, forcedTimestamp = False,
        nonvirtual = False, quiet = False, regex = False, update = False, virtual = False,
        exclusive = False\<rparr>,
      rule.prereqs = [''p''], shell = [''sh -c''], rule.recipe = ''touch t'', command = [],
      ismeta = False, rule_file = ''mkfile'', line = 1\<rparr>"

definition fresh_sched :: sched where
  "fresh_sched =
     \<lparr>nodes = (\<lambda>i. if i = 0
        then \<lparr>name = ''t'', exists = True, t = 10, status = nodeStatusReady,
              prereqs = [\<lparr>v = Some 1, r = Some fresh_rule, stem = [], matches = []\<rparr>], r = None\<rparr>
        else \<lparr>name = ''p'', exists = True, t = 5, status = nodeStatusNop, prereqs = [], r = None\<rparr>),
      files = [''t'' \<mapsto> 10, ''p'' \<mapsto> 5], rebuildtargets = {}, rebuildall = False\<rparr>"

section \<open>The expander: what it does on the inputs of the claims\<close>

lemmas string_ops = IndexAny_def IndexByte_def slice_from_def slice_to_def slice_def ret_def

text \<open>
  C5 (sigil expansion).  The claim: expanding a word that contains \<open>$$\<close> yields one
  literal \<open>$\<close> there, and the expansion resumes at the character right after the second
  \<open>$\<close>.  \<^verbatim>\<open>expandSigil\<close> gets the input after the first \<open>$\<close> and returns the offset 2 for
  the second one, so \<^verbatim>\<open>expand\<close> also skips the character that follows: whatever the host,
  the variables and the backtick setting, the word \<open>a$$b\<close> expands to \<open>a$\<close>, not to
  \<open>a$b\<close>.
\<close>

theorem expand_dollar_dollar_skips_next:
  "expand (Suc (Suc n)) h ''a$$b'' env eb = Some (Inr [''a$''])"
  by (simp add: expand_def string_ops splice_sigil_def)

text \<open>The other half of C5 holds: \<open>${name}\<close> with a name bound in neither environment
  stays in the output as it is.\<close>

lemma expand_unknown_braced_name:
  "env ''nope'' = None \<Longrightarrow> LookupEnv h ''nope'' = None
    \<Longrightarrow> expand (Suc (Suc (Suc n))) h ''a${nope}b'' env eb = Some (Inr [''a${nope}b''])"
  by (simp add: expand_def string_ops splice_sigil_def sigil_lookup_def isValidVarName_def
      runes_def IsLetter_def IsDigit_def namelist_def namelist_match_def)

text \<open>
  C6 (list-valued splitting), as stated: with \<open>x\<close> bound to \<open>[a, b, c]\<close>, the word
  \<open>pre$xpost\<close> expands to the three words \<open>prea\<close>, \<open>b\<close>, \<open>cpost\<close>.  It does not: the
  bare form takes the longest identifier after the sigil, which is \<open>xpost\<close>, and that
  variable is not bound, so the word comes back as it is.
\<close>

theorem expand_bare_sigil_names_xpost:
  "expand 2 plain_host ''pre$xpost'' [''x'' \<mapsto> [''a'', ''b'', ''c'']] False
     = Some (Inr [''pre$xpost''])
   \<and> expand 2 plain_host ''pre$xpost'' [''x'' \<mapsto> [''a'', ''b'', ''c'']] False
     \<noteq> Some (Inr [''prea'', ''b'', ''cpost''])"
  by (simp add: expand_def string_ops splice_sigil_def sigil_lookup_def isValidVarName_def
      runes_def IsLetter_def IsDigit_def plain_host_def numeral_2_eq_2)

text \<open>
  C6, amended: for every variable environment in which \<open>x\<close> is bound to \<open>[a, b, c]\<close>
  (and every host and backtick setting), the word \<open>pre${x}post\<close> expands to exactly the
  three words \<open>prea\<close>, \<open>b\<close>, \<open>cpost\<close>, in that order, with two units of fuel or more.
\<close>

theorem expand_braced_list_splits:
  "env ''x'' = Some [''a'', ''b'', ''c'']
    \<Longrightarrow> expand (Suc (Suc n)) h ''pre${x}post'' env eb = Some (Inr [''prea'', ''b'', ''cpost''])"
  by (simp add: expand_def string_ops splice_sigil_def sigil_lookup_def isValidVarName_def
      runes_def IsLetter_def IsDigit_def namelist_def namelist_match_def)

theorem expand_braced_list_splits_witness:
  "expand 2 plain_host ''pre${x}post'' [''x'' \<mapsto> [''a'', ''b'', ''c'']] True
     = Some (Inr [''prea'', ''b'', ''cpost''])"
  using expand_braced_list_splits [of "[''x'' \<mapsto> [''a'', ''b'', ''c'']]" 0 plain_host True]
  by (simp add: numeral_2_eq_2)

text \<open>
  C7 (suffix expansion).  The claim: every unescaped percent sign becomes the stem, an
  escaped one a literal percent sign, every other character passes through, also with
  two or more unescaped percent signs.  After the first percent sign the index that
  \<^verbatim>\<open>strings.IndexAny\<close> returns for \<^verbatim>\<open>input[i:]\<close> is used as an index of \<open>input\<close>: on
  \<open>%ab%\<close> with the stem \<open>X\<close> the result is \<open>Xa%\<close>, not \<open>XabX\<close>; and a backslash before
  a character other than the percent sign leaves \<open>i\<close> where it is, so on \<open>\x\<close> the loop
  returns with no amount of fuel.
\<close>

lemma expandSuffixes_escape_loops:
  "expandSuffixes_loop n [BSLASH, CHR ''x''] sub 0 acc = None"
  by (induction n arbitrary: acc) (simp_all add: string_ops)

theorem expandSuffixes_second_percent:
  "expandSuffixes (Suc (Suc (Suc n))) ''%ab%'' ''X'' = Some (Inr ''Xa%'')
   \<and> expandSuffixes m [BSLASH, CHR ''x''] sub = None"
  by (simp add: expandSuffixes_def expandSuffixes_escape_loops) (simp add: string_ops)

text \<open>
  C10 (totality of expansion).  The claim: \<^verbatim>\<open>expand\<close>, \<^verbatim>\<open>expandSigil\<close> and
  \<^verbatim>\<open>expandSuffixes\<close> return without a panic on every input, in particular on a word that
  ends in \<open>$$\<close> and on an input with two unescaped percent signs.  On both they slice
  out of range: \<open>a$$\<close> takes \<^verbatim>\<open>input[2:]\<close> of the one remaining byte, and \<open>a%b%c\<close> takes
  \<^verbatim>\<open>input[2:1]\<close>; a word that ends in one \<open>$\<close> takes \<^verbatim>\<open>input[:1]\<close> of the empty string.
\<close>

theorem expansion_slices_out_of_range:
  "expand (Suc (Suc n)) h ''a$$'' env eb = Some (Inl (SliceBounds 2 1 1))
   \<and> expandSuffixes (Suc (Suc n)) ''a%b%c'' sub = Some (Inl (SliceBounds 2 1 5))
   \<and> expandSigil (Suc n) h [] env = Some (Inl (SliceBounds 0 1 0))"
  by (simp add: expand_def expandSuffixes_def string_ops splice_sigil_def RuneError_def)

section \<open>The scheduler of a node: an up-to-date target\<close>

text \<open>
  C3 (up-to-dateness).  A target that \<^verbatim>\<open>mkNode\<close> can claim (status ready or nop), whose
  rule is not virtual, that exists on disk when the prerequisites completed, with a
  modification time strictly greater than that of every prerequisite node, none of
  which was built (status done), and that no force flag names: \<^verbatim>\<open>mkNode\<close> does not
  execute the recipe (the flag of the result is \<open>False\<close>, and the result does not depend
  on \<open>dorecipe\<close>) and the final status is \<^verbatim>\<open>nodeStatusNop\<close>.  \<open>w2\<close> is the state when the
  first wait for the prerequisites ends, whatever they did.
\<close>

theorem mkNode_up_to_date:
  fixes built dorecipe w u dryrun required e er
  defines "w2 \<equiv> built (prereq_nodes (prereqs (nodes w u)))
                (required \<and> (virtual (attributes er) \<or> \<not> exists (nodes w u)))
                (set_status w u nodeStatusStarted)"
  assumes st: "status (nodes w u) = nodeStatusReady \<or> status (nodes w u) = nodeStatusNop"
    and re: "rule_edge (prereqs (nodes w u)) = Some e"
    and er: "edge.r e = Some er"
    and nv: "\<not> virtual (attributes er)"
    and on_disk: "files w2 (name (nodes w2 u)) = Some mtime"
    and older: "\<forall>p \<in> set (prereq_nodes (prereqs (nodes w u))).
            t (nodes w2 p) < mtime \<and> status (nodes w2 p) \<noteq> nodeStatusDone"
    and nf: "name (nodes w2 u) \<notin> rebuildtargets w2" "\<not> rebuildall w2"
  shows "mkNode built dorecipe w u dryrun required
           = Inr (set_status (updateTimestamp w2 u) u nodeStatusNop, False)
         \<and> status (nodes (set_status (updateTimestamp w2 u) u nodeStatusNop) u) = nodeStatusNop"
proof -
  let ?w1 = "set_status w u nodeStatusStarted"
  let ?ps = "prereq_nodes (prereqs (nodes w u))"
  let ?w3 = "updateTimestamp w2 u"
  have ne: "prereqs (nodes w u) \<noteq> []"
    using re by (auto simp: rule_edge_def)
  have n1: "prereqs (nodes ?w1 u) = prereqs (nodes w u)" "exists (nodes ?w1 u) = exists (nodes w u)"
    by (simp_all add: set_status_def)
  have w3: "exists (nodes ?w3 u)" "name (nodes ?w3 u) = name (nodes w2 u)"
    "rebuildtargets ?w3 = rebuildtargets w2" "rebuildall ?w3 = rebuildall w2"
    using on_disk by (simp_all add: updateTimestamp_def)
  have tm: "t (nodes ?w3 p) = (if p = u then mtime else t (nodes w2 p))"
    "status (nodes ?w3 p) = status (nodes w2 p)" for p
    using on_disk by (simp_all add: updateTimestamp_def)
  have po: "prereqs_older ?w3 u ?ps"
    unfolding prereqs_older_def list_all_iff
  proof
    fix p assume "p \<in> set ?ps"
    then have "t (nodes w2 p) < mtime" "status (nodes w2 p) \<noteq> nodeStatusDone"
      using older by auto
    then show "\<not> (t (nodes ?w3 u) < t (nodes ?w3 p) \<or> status (nodes ?w3 p) = nodeStatusDone)"
      by (simp add: tm)
  qed
  have claim: "\<not> (status (nodes w u) \<noteq> nodeStatusReady \<and> status (nodes w u) \<noteq> nodeStatusNop)"
    using st by auto
  have w2': "built ?ps (required \<and> \<not> exists (nodes w u)) ?w1 = w2"
    using nv by (simp add: w2_def)
  have "mkNode built dorecipe w u dryrun required = Inr (set_status ?w3 u nodeStatusNop, False)"
    unfolding mkNode_def Let_def
    by (simp only: claim if_False n1 ne re option.case er option.sel nv not_False_eq_True
        if_True simp_thms w2' w3 po nf)
  then show ?thesis
    by (simp add: set_status_def)
qed

theorem mkNode_up_to_date_witness:
  "mkNode (\<lambda>ps req w. w) (\<lambda>u e dry w. (True, w)) fresh_sched 0 False True
     = Inr (set_status (updateTimestamp (set_status fresh_sched 0 nodeStatusStarted) 0) 0
              nodeStatusNop, False)
   \<and> rule.recipe fresh_rule = ''touch t''"
proof -
  let ?e = "\<lparr>v = Some 1, r = Some fresh_rule, stem = [], matches = []\<rparr>"
  let ?w1 = "set_status fresh_sched 0 nodeStatusStarted"
  have n0: "nodes fresh_sched 0 = \<lparr>name = ''t'', exists = True, t = 10, status = nodeStatusReady,
      prereqs = [?e], r = None\<rparr>"
    by (simp add: fresh_sched_def)
  have n1: "nodes ?w1 (Suc 0) = \<lparr>name = ''p'', exists = True, t = 5, status = nodeStatusNop,
      prereqs = [], r = None\<rparr>"
    by (simp add: fresh_sched_def set_status_def)
  have f1: "files ?w1 = [''t'' \<mapsto> 10, ''p'' \<mapsto> 5]" "rebuildtargets ?w1 = {}" "\<not> rebuildall ?w1"
    "name (nodes ?w1 0) = ''t''"
    by (simp_all add: fresh_sched_def set_status_def)
  have st: "status (nodes fresh_sched 0) = nodeStatusReady \<or> status (nodes fresh_sched 0) = nodeStatusNop"
    by (simp add: n0)
  have re: "rule_edge (prereqs (nodes fresh_sched 0)) = Some ?e"
    by (simp add: n0 rule_edge_def)
  have ps: "prereq_nodes (prereqs (nodes fresh_sched 0)) = [Suc 0]"
    by (simp add: n0 prereq_nodes_def List.map_filter_simps)
  have nv: "\<not> virtual (attributes fresh_rule)"
    by (simp add: fresh_rule_def)
  show ?thesis
    using mkNode_up_to_date [where w = fresh_sched and u = 0 and e = ?e and er = fresh_rule
        and built = "\<lambda>ps req w. w" and mtime = 10 and required = True
        and dorecipe = "\<lambda>u e dry w. (True, w)" and dryrun = False, OF st re _ nv]
    by (simp add: ps n1 f1 fresh_rule_def)
qed

text \<open>A target with no edge at all that exists ends with the same status, and no recipe
  is looked at.\<close>

lemma mkNode_leaf:
  assumes "status (nodes w u) = nodeStatusReady \<or> status (nodes w u) = nodeStatusNop"
    and "prereqs (nodes w u) = []" and "exists (nodes w u)"
  shows "mkNode built dorecipe w u dryrun required
           = Inr (set_status (set_status w u nodeStatusStarted) u nodeStatusNop, False)"
  using assms by (auto simp: mkNode_def set_status_def Let_def)

end
